theory Spec2Isabelle
  imports Main "HOL-Library.List_Lexorder"
begin

section \<open>Text, time and errors\<close>

text \<open>
  A Python \<open>str\<close> is a sequence of Unicode code points, so text is a list of code points
  (\<open>nat\<close>); \<open>str\<close> turns an ASCII literal into such a list. Characters outside ASCII
  (the accented letters and the two pictographs of the report lines) are written by
  their code point.
\<close>

type_synonym pystr = "nat list"

definition str :: "string \<Rightarrow> pystr" where
  "str s = map of_char s"

text \<open>U+2705 and U+274C, the marks that open a success and a failure line.\<close>

definition ok_mark :: pystr where
  "ok_mark = [9989]"

definition err_mark :: pystr where
  "err_mark = [10060]"

text \<open>The code points for which \<open>str.isspace\<close> holds: what \<open>str.strip()\<close> removes.\<close>

definition is_space :: "nat \<Rightarrow> bool" where
  "is_space c \<longleftrightarrow>
     (9 \<le> c \<and> c \<le> 13) \<or> (28 \<le> c \<and> c \<le> 32) \<or> c = 133 \<or> c = 160 \<or> c = 5760 \<or>
     (8192 \<le> c \<and> c \<le> 8202) \<or> c = 8232 \<or> c = 8233 \<or> c = 8239 \<or> c = 8287 \<or> c = 12288"

definition strip :: "pystr \<Rightarrow> pystr" where
  "strip s = rev (dropWhile is_space (rev (dropWhile is_space s)))"

text \<open>\<open>s.split(',')\<close>: always at least one piece, empty pieces are kept.\<close>

fun split_on :: "nat \<Rightarrow> pystr \<Rightarrow> pystr list" where
  "split_on c [] = [[]]"
| "split_on c (x # xs) =
     (if x = c then [] # split_on c xs
      else (case split_on c xs of
              [] \<Rightarrow> [[x]]
            | w # ws \<Rightarrow> (x # w) # ws))"

text \<open>\<open>os.path.basename\<close>: what follows the last \<open>/\<close> (code point 47).\<close>

definition basename :: "pystr \<Rightarrow> pystr" where
  "basename p = rev (takeWhile (\<lambda>c. c \<noteq> 47) (rev p))"

definition startswith :: "pystr \<Rightarrow> pystr \<Rightarrow> bool" where
  "startswith s p \<longleftrightarrow> take (length p) s = p"

text \<open>\<open>str(n)\<close> for the counters and the retention window of the report.\<close>

fun str_nat :: "nat \<Rightarrow> pystr" where
  "str_nat n = (if n < 10 then [48 + n] else str_nat (n div 10) @ [48 + n mod 10])"

declare str_nat.simps [simp del]

definition str_int :: "int \<Rightarrow> pystr" where
  "str_int i = (if i < 0 then 45 # str_nat (nat (- i)) else str_nat (nat i))"

definition join_lines :: "pystr list \<Rightarrow> pystr" where
  "join_lines ls = concat (case ls of [] \<Rightarrow> [] | l # rest \<Rightarrow> l # map (\<lambda>x. 10 # x) rest)"

text \<open>
  A naive \<open>datetime\<close> is the number of microseconds since 0001-01-01 00:00:00, the scale
  on which Python compares datetimes and adds timedeltas. The last representable
  instant is 9999-12-31 23:59:59.999999 (ordinal day 3652059). The \<open>LastModified\<close> of a
  remote object is held as the script sees it after \<open>.replace(tzinfo=None)\<close>.
\<close>

type_synonym datetime = int

definition us_per_day :: int where
  "us_per_day = 86400000000"

definition max_datetime :: datetime where
  "max_datetime = 3652059 * 86400000000 - 1"

definition valid_datetime :: "datetime \<Rightarrow> bool" where
  "valid_datetime t \<longleftrightarrow> 0 \<le> t \<and> t \<le> max_datetime"

text \<open>
  Every exception of the script is an \<open>Exception\<close>; the constructor records where it
  comes from and carries the text \<open>str(e)\<close> gives.
\<close>

datatype error =
    ConfigError pystr
  | ValueError pystr
  | OverflowError pystr
  | OSError pystr
  | DumpError pystr
  | CalledProcessError pystr
  | S3Error pystr
  | SMTPError pystr

fun str_error :: "error \<Rightarrow> pystr" where
  "str_error (ConfigError m) = m"
| "str_error (ValueError m) = m"
| "str_error (OverflowError m) = m"
| "str_error (OSError m) = m"
| "str_error (DumpError m) = m"
| "str_error (CalledProcessError m) = m"
| "str_error (S3Error m) = m"
| "str_error (SMTPError m) = m"

text \<open>\<open>timedelta(days=d)\<close>, in microseconds: the magnitude of \<open>d\<close> is at most 999999999.\<close>

definition timedelta_days :: "int \<Rightarrow> error + int" where
  "timedelta_days d =
     (if d < - 999999999 \<or> 999999999 < d
      then Inl (OverflowError (str ''days out of range''))
      else Inr (d * us_per_day))"

text \<open>\<open>datetime - timedelta\<close>: the result has to be a representable datetime.\<close>

definition datetime_sub :: "datetime \<Rightarrow> int \<Rightarrow> error + datetime" where
  "datetime_sub t delta =
     (if valid_datetime (t - delta) then Inr (t - delta)
      else Inl (OverflowError (str ''date value out of range'')))"

section \<open>The manager, the world and its collaborators\<close>

text \<open>The fields \<open>MySQLBackupManager.__init__\<close> sets.\<close>

record manager =
  mysql_host :: pystr
  mysql_user :: pystr
  mysql_password :: pystr
  databases :: "pystr list"
  s3_bucket :: pystr
  aws_region :: pystr
  backup_dir :: pystr
  retention_days :: int
  smtp_server :: pystr
  smtp_port :: int
  email_user :: pystr
  email_password :: pystr
  notification_email :: pystr

record s3_object =
  obj_key :: pystr
  last_modified :: datetime

datatype level = INFO | ERROR

text \<open>One record for each call of \<open>send_notification\<close>: the message built and its fate.\<close>

record notification =
  msg_from :: pystr
  msg_to :: pystr
  msg_subject :: pystr
  msg_body :: pystr
  flagged :: bool
  delivered :: bool

datatype smtp_step = Connect | Starttls | Login | SendMessage | Quit

text \<open>
  What the script acts on: the clock readings taken so far, the files of the local
  disk, the objects and tag sets of the bucket, the log, and the notifications.
\<close>

record world =
  ticks :: nat
  disk :: "pystr set"
  bucket :: "s3_object list"
  tagging :: "pystr \<Rightarrow> (pystr \<times> pystr) list option"
  log :: "(level \<times> pystr) list"
  notifications :: "notification list"

text \<open>
  The collaborators the script does not control. Library functions are parameters
  (\<open>strftime\<close>, \<open>str\<close> of a timedelta, \<open>int\<close> of a string). The outcome of each external
  step is a function of the database it is run for (\<open>None\<close>: no exception); a delete is
  decided per key. \<open>page_limit\<close> is the number of objects the store puts in the response
  to one list request.
\<close>

record env =
  clock :: "nat \<Rightarrow> datetime"
  strftime :: "pystr \<Rightarrow> datetime \<Rightarrow> pystr"
  str_timedelta :: "int \<Rightarrow> pystr"
  int_of_str :: "pystr \<Rightarrow> int option"
  boto3_client :: "pystr \<Rightarrow> error option"
  mkdir :: "pystr \<Rightarrow> error option"
  open_w :: "pystr \<Rightarrow> error option"
  mysqldump :: "pystr \<Rightarrow> error + (int \<times> pystr)"
  gzip :: "pystr \<Rightarrow> error option"
  upload_file :: "pystr \<Rightarrow> error option"
  store_time :: "nat \<Rightarrow> datetime"
  put_object_tagging :: "pystr \<Rightarrow> error option"
  list_objects_v2 :: "pystr \<Rightarrow> error option"
  page_limit :: nat
  delete_object :: "pystr \<Rightarrow> error option"
  os_remove :: "pystr \<Rightarrow> error option"
  smtp :: "smtp_step \<Rightarrow> error option"

definition logging :: "level \<Rightarrow> pystr \<Rightarrow> world \<Rightarrow> world" where
  "logging l m s = s\<lparr>log := log s @ [(l, m)]\<rparr>"

text \<open>\<open>datetime.now()\<close>: the next reading of the clock.\<close>

definition now :: "env \<Rightarrow> world \<Rightarrow> datetime \<times> world" where
  "now e s = (clock e (ticks s), s\<lparr>ticks := Suc (ticks s)\<rparr>)"

section \<open>Retention: \<open>cleanup_old_backups\<close>\<close>

text \<open>
  The response to the one list request: the objects under the prefix in key order,
  cut at the store's page limit.
\<close>

definition first_page :: "env \<Rightarrow> pystr \<Rightarrow> world \<Rightarrow> s3_object list" where
  "first_page e prefix s =
     take (page_limit e) (sort_key obj_key (filter (\<lambda>ob. startswith (obj_key ob) prefix) (bucket s)))"

definition remove_key :: "pystr \<Rightarrow> world \<Rightarrow> world" where
  "remove_key k s = s\<lparr>bucket := filter (\<lambda>ob. obj_key ob \<noteq> k) (bucket s)\<rparr>"

text \<open>
  The \<open>for obj in response['Contents']\<close> loop with its counter. A delete that raises
  ends the loop: the exception leaves it for the handler of the function.
\<close>

fun delete_loop :: "env \<Rightarrow> datetime \<Rightarrow> s3_object list \<Rightarrow> nat \<Rightarrow> world \<Rightarrow> (error + nat) \<times> world" where
  "delete_loop e cutoff_date [] deleted_count s = (Inr deleted_count, s)"
| "delete_loop e cutoff_date (ob # rest) deleted_count s =
     (if last_modified ob < cutoff_date then
        (case delete_object e (obj_key ob) of
           Some err \<Rightarrow> (Inl err, s)
         | None \<Rightarrow>
             delete_loop e cutoff_date rest (deleted_count + 1)
               (logging INFO (str ''Backup antigo removido: '' @ obj_key ob)
                  (remove_key (obj_key ob) s)))
      else delete_loop e cutoff_date rest deleted_count s)"

definition cleanup_prefix :: "pystr \<Rightarrow> pystr" where
  "cleanup_prefix database = str ''mysql_backups/'' @ database @ str ''/''"

text \<open>The \<open>try\<close> block of \<open>cleanup_old_backups\<close>; \<open>Inl\<close> is an exception leaving it.\<close>

definition cleanup_try :: "env \<Rightarrow> manager \<Rightarrow> pystr \<Rightarrow> world \<Rightarrow> (error + unit) \<times> world" where
  "cleanup_try e m database s =
     (let (t, s1) = now e s in
      case timedelta_days (retention_days m) of
        Inl err \<Rightarrow> (Inl err, s1)
      | Inr delta \<Rightarrow>
          (case datetime_sub t delta of
             Inl err \<Rightarrow> (Inl err, s1)
           | Inr cutoff_date \<Rightarrow>
               (case list_objects_v2 e database of
                  Some err \<Rightarrow> (Inl err, s1)
                | None \<Rightarrow>
                    (let contents = first_page e (cleanup_prefix database) s1 in
                     if contents = [] then (Inr (), s1)
                     else
                       (case delete_loop e cutoff_date contents 0 s1 of
                          (Inl err, s2) \<Rightarrow> (Inl err, s2)
                        | (Inr deleted_count, s2) \<Rightarrow>
                            (Inr (),
                             if deleted_count > 0
                             then logging INFO
                                    (str ''Limpeza conclu'' @ [237] @ str ''da: '' @ str_nat deleted_count
                                       @ str '' backups antigos removidos'') s2
                             else s2))))))"

text \<open>The handler logs whatever left the \<open>try\<close> block; nothing leaves the function.\<close>

definition cleanup_old_backups :: "env \<Rightarrow> manager \<Rightarrow> pystr \<Rightarrow> world \<Rightarrow> world" where
  "cleanup_old_backups e m database s =
     (case cleanup_try e m database s of
        (Inl err, s') \<Rightarrow>
          logging ERROR (str ''Erro na limpeza de backups antigos: '' @ str_error err) s'
      | (Inr u, s') \<Rightarrow> s')"

section \<open>The dump: \<open>create_mysql_dump\<close>\<close>

definition dump_path :: "manager \<Rightarrow> pystr \<Rightarrow> pystr \<Rightarrow> pystr" where
  "dump_path m database timestamp =
     backup_dir m @ str ''/'' @ database @ str ''_'' @ timestamp @ str ''.sql''"

text \<open>
  The \<open>try\<close> block. Opening the file for writing creates it; \<open>mysqldump\<close> writes into
  it; a non-zero return code raises. \<open>gzip\<close> replaces the file by the compressed one, and
  leaves it in place when it fails.
\<close>

definition dump_try :: "env \<Rightarrow> manager \<Rightarrow> pystr \<Rightarrow> pystr \<Rightarrow> world \<Rightarrow> (error + pystr) \<times> world" where
  "dump_try e m database dump_file s =
     (let s1 = logging INFO (str ''Criando backup do banco '' @ database @ str ''...'') s in
      case open_w e database of
        Some err \<Rightarrow> (Inl err, s1)
      | None \<Rightarrow>
          (let s2 = s1\<lparr>disk := insert dump_file (disk s1)\<rparr> in
           case mysqldump e database of
             Inl err \<Rightarrow> (Inl err, s2)
           | Inr (returncode, stderr) \<Rightarrow>
               if returncode \<noteq> 0
               then (Inl (DumpError (str ''Erro no mysqldump: '' @ stderr)), s2)
               else
                 (let compressed_file = dump_file @ str ''.gz'' in
                  case gzip e database of
                    Some err \<Rightarrow> (Inl err, s2)
                  | None \<Rightarrow>
                      (Inr compressed_file,
                       logging INFO (str ''Backup criado: '' @ compressed_file)
                         (s2\<lparr>disk := insert compressed_file (disk s2 - {dump_file})\<rparr>)))))"

definition create_mysql_dump :: "env \<Rightarrow> manager \<Rightarrow> pystr \<Rightarrow> world \<Rightarrow> (error + pystr) \<times> world" where
  "create_mysql_dump e m database s =
     (let (t, s1) = now e s;
          timestamp = strftime e (str ''%Y%m%d_%H%M%S'') t;
          dump_file = dump_path m database timestamp
      in case dump_try e m database dump_file s1 of
           (Inl err, s2) \<Rightarrow>
             (Inl err,
              logging ERROR (str ''Erro ao criar backup de '' @ database @ str '': '' @ str_error err) s2)
         | (Inr compressed_file, s2) \<Rightarrow> (Inr compressed_file, s2))"

section \<open>The upload: \<open>upload_to_s3\<close>\<close>

definition s3_key_of :: "pystr \<Rightarrow> pystr \<Rightarrow> pystr" where
  "s3_key_of database file_name = str ''mysql_backups/'' @ database @ str ''/'' @ file_name"

text \<open>Writing a key replaces the object the bucket has under it.\<close>

definition put_object :: "pystr \<Rightarrow> datetime \<Rightarrow> world \<Rightarrow> world" where
  "put_object k t s =
     s\<lparr>bucket := \<lparr>obj_key = k, last_modified = t\<rparr> # filter (\<lambda>ob. obj_key ob \<noteq> k) (bucket s)\<rparr>"

text \<open>
  The \<open>try\<close> block: the transfer and the tagging are two calls in the same block, and
  an exception of either leaves it.
\<close>

definition upload_try :: "env \<Rightarrow> manager \<Rightarrow> pystr \<Rightarrow> pystr \<Rightarrow> world \<Rightarrow> (error + pystr) \<times> world" where
  "upload_try e m local_file database s =
     (let file_name = basename local_file;
          s3_key = s3_key_of database file_name;
          s1 = logging INFO (str ''Uploading '' @ file_name @ str '' para S3...'') s
      in case upload_file e database of
           Some err \<Rightarrow> (Inl err, s1)
         | None \<Rightarrow>
             (let s2 = put_object s3_key (store_time e (ticks s1)) s1;
                  (t, s3) = now e s2;
                  tag_set = [(str ''Type'', str ''mysql_backup''),
                             (str ''Database'', database),
                             (str ''Date'', strftime e (str ''%Y-%m-%d'') t)]
              in case put_object_tagging e database of
                   Some err \<Rightarrow> (Inl err, s3)
                 | None \<Rightarrow>
                     (Inr s3_key,
                      logging INFO
                        (str ''Upload conclu'' @ [237] @ str ''do: s3://'' @ s3_bucket m @ str ''/'' @ s3_key)
                        (s3\<lparr>tagging := (tagging s3)(s3_key \<mapsto> tag_set)\<rparr>))))"

definition upload_to_s3 :: "env \<Rightarrow> manager \<Rightarrow> pystr \<Rightarrow> pystr \<Rightarrow> world \<Rightarrow> (error + pystr) \<times> world" where
  "upload_to_s3 e m local_file database s =
     (case upload_try e m local_file database s of
        (Inl err, s') \<Rightarrow>
          (Inl err, logging ERROR (str ''Erro no upload para S3: '' @ str_error err) s')
      | (Inr s3_key, s') \<Rightarrow> (Inr s3_key, s'))"

section \<open>The notification: \<open>send_notification\<close>\<close>

text \<open>The SMTP session: the first call that raises ends it.\<close>

fun smtp_session :: "env \<Rightarrow> smtp_step list \<Rightarrow> error option" where
  "smtp_session e [] = None"
| "smtp_session e (st # rest) =
     (case smtp e st of Some err \<Rightarrow> Some err | None \<Rightarrow> smtp_session e rest)"

definition send_notification :: "env \<Rightarrow> manager \<Rightarrow> pystr \<Rightarrow> pystr \<Rightarrow> bool \<Rightarrow> world \<Rightarrow> world" where
  "send_notification e m subject message is_error s =
     (let body = (if is_error
                  then err_mark @ str '' ERRO no backup:'' @ [10, 10] @ message
                  else ok_mark @ str '' Backup conclu'' @ [237] @ str ''do com sucesso:'' @ [10, 10] @ message);
          msg = \<lparr>msg_from = email_user m, msg_to = notification_email m,
                 msg_subject = str ''[MySQL Backup] '' @ subject, msg_body = body,
                 flagged = is_error,
                 delivered = (smtp_session e [Connect, Starttls, Login, SendMessage] = None)\<rparr>;
          s1 = s\<lparr>notifications := notifications s @ [msg]\<rparr>
      in case smtp_session e [Connect, Starttls, Login, SendMessage, Quit] of
           Some err \<Rightarrow>
             logging ERROR (str ''Erro ao enviar notifica'' @ [231, 227] @ str ''o: '' @ str_error err) s1
         | None \<Rightarrow>
             logging INFO (str ''Notifica'' @ [231, 227] @ str ''o enviada por email'') s1)"

section \<open>The orchestrator: \<open>run_backup\<close> and \<open>main\<close>\<close>

text \<open>
  The body of the \<open>try\<close> of one iteration: dump, upload, cleanup, removal of the local
  file. \<open>Inl\<close> is the exception that reaches the handler of the iteration.
\<close>

definition backup_database :: "env \<Rightarrow> manager \<Rightarrow> pystr \<Rightarrow> world \<Rightarrow> (error + pystr) \<times> world" where
  "backup_database e m database s =
     (case create_mysql_dump e m database s of
        (Inl err, s1) \<Rightarrow> (Inl err, s1)
      | (Inr dump_file, s1) \<Rightarrow>
          (case upload_to_s3 e m dump_file database s1 of
             (Inl err, s2) \<Rightarrow> (Inl err, s2)
           | (Inr s3_key, s2) \<Rightarrow>
               (let s3 = cleanup_old_backups e m database s2 in
                case os_remove e database of
                  Some err \<Rightarrow> (Inl err, s3)
                | None \<Rightarrow> (Inr dump_file, s3\<lparr>disk := disk s3 - {dump_file}\<rparr>))))"

text \<open>The counters and the detail lines the loop of \<open>run_backup\<close> carries.\<close>

record tally =
  success_count :: nat
  error_count :: nat
  backup_details :: "pystr list"

fun backup_loop :: "env \<Rightarrow> manager \<Rightarrow> pystr list \<Rightarrow> tally \<Rightarrow> world \<Rightarrow> tally \<times> world" where
  "backup_loop e m [] acc s = (acc, s)"
| "backup_loop e m (d # ds) acc s =
     (let database = strip d in
      case backup_database e m database s of
        (Inr dump_file, s1) \<Rightarrow>
          backup_loop e m ds
            (acc\<lparr>success_count := success_count acc + 1,
                 backup_details := backup_details acc
                    @ [ok_mark @ str '' '' @ database @ str '': '' @ basename dump_file]\<rparr>)
            s1
      | (Inl err, s1) \<Rightarrow>
          backup_loop e m ds
            (acc\<lparr>error_count := error_count acc + 1,
                 backup_details := backup_details acc
                    @ [err_mark @ str '' '' @ database @ str '': '' @ str_error err]\<rparr>)
            (logging ERROR (str ''Falha no backup de '' @ database @ str '': '' @ str_error err) s1))"

definition report_text :: "env \<Rightarrow> manager \<Rightarrow> datetime \<Rightarrow> datetime \<Rightarrow> tally \<Rightarrow> pystr" where
  "report_text e m start_time end_time acc =
     [10] @ str ''Relat'' @ [243] @ str ''rio de Backup MySQL'' @ [10]
     @ str ''========================'' @ [10]
     @ str ''Data/Hora: '' @ strftime e (str ''%d/%m/%Y %H:%M:%S'') start_time @ [10]
     @ str ''Dura'' @ [231, 227] @ str ''o: '' @ str_timedelta e (end_time - start_time) @ [10]
     @ str ''Bancos processados: '' @ str_nat (length (databases m)) @ [10]
     @ str ''Sucessos: '' @ str_nat (success_count acc) @ [10]
     @ str ''Erros: '' @ str_nat (error_count acc) @ [10]
     @ [10]
     @ str ''Detalhes:'' @ [10]
     @ join_lines (backup_details acc) @ [10]
     @ [10]
     @ str ''Configura'' @ [231, 245] @ str ''es:'' @ [10]
     @ str ''- Bucket S3: '' @ s3_bucket m @ [10]
     @ str ''- Reten'' @ [231, 227] @ str ''o: '' @ str_int (retention_days m) @ str '' dias'' @ [10]
     @ str ''- Diret'' @ [243] @ str ''rio local: '' @ backup_dir m @ [10]
     @ str ''        ''"

definition tally0 :: tally where
  "tally0 = \<lparr>success_count = 0, error_count = 0, backup_details = []\<rparr>"

text \<open>
  \<open>run_backup\<close> up to the end of its loop: the start time, the counters and detail
  lines, and the world the loop leaves.
\<close>

definition run_loop :: "env \<Rightarrow> manager \<Rightarrow> world \<Rightarrow> datetime \<times> tally \<times> world" where
  "run_loop e m s =
     (let (start_time, s1) = now e s;
          s2 = logging INFO (str ''=== Iniciando processo de backup MySQL ==='') s1;
          (acc, s3) = backup_loop e m (databases m) tally0 s2
      in (start_time, acc, s3))"

text \<open>The rest of \<open>run_backup\<close>: the report, the one notification, the result.\<close>

definition run_backup :: "env \<Rightarrow> manager \<Rightarrow> world \<Rightarrow> bool \<times> world" where
  "run_backup e m s =
     (let (start_time, acc, s3) = run_loop e m s;
          (end_time, s4) = now e s3;
          report = report_text e m start_time end_time acc;
          s5 = logging INFO report s4;
          s6 = (if error_count acc > 0
                then send_notification e m
                       (str ''Backup com '' @ str_nat (error_count acc) @ str '' erro(s)'') report True s5
                else send_notification e m (str ''Backup conclu'' @ [237] @ str ''do'') report False s5)
      in (success_count acc = length (databases m), s6))"

text \<open>
  The configuration file as \<open>config.get\<close> reads it: the value of an option of a section,
  if the file has it.
\<close>

type_synonym config = "pystr \<times> pystr \<Rightarrow> pystr option"

definition get_required :: "config \<Rightarrow> string \<Rightarrow> string \<Rightarrow> error + pystr" where
  "get_required c section option =
     (case c (str section, str option) of
        None \<Rightarrow> Inl (ConfigError (str ''No option '' @ str option @ str '' in section: '' @ str section))
      | Some v \<Rightarrow> Inr v)"

definition get_fallback :: "config \<Rightarrow> string \<Rightarrow> string \<Rightarrow> string \<Rightarrow> pystr" where
  "get_fallback c section option fallback =
     (case c (str section, str option) of None \<Rightarrow> str fallback | Some v \<Rightarrow> v)"

definition py_int :: "env \<Rightarrow> pystr \<Rightarrow> error + int" where
  "py_int e v =
     (case int_of_str e v of
        None \<Rightarrow> Inl (ValueError (str ''invalid literal for int() with base 10: '' @ v))
      | Some i \<Rightarrow> Inr i)"

definition raise_opt :: "error option \<Rightarrow> error + unit" where
  "raise_opt x = (case x of Some err \<Rightarrow> Inl err | None \<Rightarrow> Inr ())"

text \<open>Sequencing of statements that may raise: the first exception ends the sequence.\<close>

definition and_then :: "error + 'a \<Rightarrow> ('a \<Rightarrow> error + 'b) \<Rightarrow> error + 'b" where
  "and_then r f = (case r of Inl err \<Rightarrow> Inl err | Inr v \<Rightarrow> f v)"

text \<open>\<open>MySQLBackupManager.__init__\<close>, statement by statement.\<close>

definition init :: "env \<Rightarrow> config \<Rightarrow> error + manager" where
  "init e c =
     (let host = get_fallback c ''mysql'' ''host'' ''localhost'' in
      and_then (get_required c ''mysql'' ''user'') (\<lambda>user.
      and_then (get_required c ''mysql'' ''password'') (\<lambda>password.
      and_then (get_required c ''mysql'' ''databases'') (\<lambda>dbs.
      and_then (get_required c ''aws'' ''s3_bucket'') (\<lambda>bucket_name.
      let region = get_fallback c ''aws'' ''region'' ''us-east-1'';
          local_dir = get_fallback c ''backup'' ''local_dir'' ''/tmp/mysql_backups'' in
      and_then (py_int e (get_fallback c ''backup'' ''retention_days'' ''30'')) (\<lambda>days.
      let server = get_fallback c ''email'' ''smtp_server'' ''smtp.gmail.com'' in
      and_then (py_int e (get_fallback c ''email'' ''smtp_port'' ''587'')) (\<lambda>port.
      and_then (get_required c ''email'' ''user'') (\<lambda>mail_user.
      and_then (get_required c ''email'' ''password'') (\<lambda>mail_password.
      and_then (get_required c ''email'' ''notification_email'') (\<lambda>recipient.
      and_then (raise_opt (boto3_client e region)) (\<lambda>u.
      and_then (raise_opt (mkdir e local_dir)) (\<lambda>u'.
      Inr \<lparr>mysql_host = host, mysql_user = user, mysql_password = password,
           databases = split_on 44 dbs,
           s3_bucket = bucket_name, aws_region = region,
           backup_dir = local_dir, retention_days = days,
           smtp_server = server, smtp_port = port,
           email_user = mail_user, email_password = mail_password,
           notification_email = recipient\<rparr>))))))))))))"

text \<open>\<open>main\<close>: the exit code and the world the process leaves.\<close>

definition main :: "env \<Rightarrow> config \<Rightarrow> world \<Rightarrow> int \<times> world" where
  "main e c s =
     (case init e c of
        Inl err \<Rightarrow>
          (1, logging ERROR (str ''Erro cr'' @ [237] @ str ''tico no processo de backup: '' @ str_error err) s)
      | Inr m \<Rightarrow>
          (let (success, s1) = run_backup e m s in
           if success
           then (0, logging INFO (str ''Todos os backups foram conclu'' @ [237] @ str ''dos com sucesso!'') s1)
           else (1, logging ERROR (str ''Alguns backups falharam. Verifique os logs.'') s1)))"

section \<open>Outcomes of the steps of one database\<close>

text \<open>The dump of a database succeeds: the file opens, \<open>mysqldump\<close> returns 0, \<open>gzip\<close> succeeds.\<close>

definition dump_ok :: "env \<Rightarrow> pystr \<Rightarrow> bool" where
  "dump_ok e database \<longleftrightarrow>
     open_w e database = None \<and>
     (case mysqldump e database of Inl err \<Rightarrow> False | Inr (returncode, stderr) \<Rightarrow> returncode = 0) \<and>
     gzip e database = None"

text \<open>The transfer and the tagging of the upload both succeed.\<close>

definition upload_ok :: "env \<Rightarrow> pystr \<Rightarrow> bool" where
  "upload_ok e database \<longleftrightarrow> upload_file e database = None \<and> put_object_tagging e database = None"

text \<open>
  A database is healthy when no step that can end its iteration raises: dump, upload and
  the removal of the local file.
\<close>

definition healthy :: "env \<Rightarrow> pystr \<Rightarrow> bool" where
  "healthy e database \<longleftrightarrow> dump_ok e database \<and> upload_ok e database \<and> os_remove e database = None"

text \<open>The two files of one dump: the raw dump and the compressed file.\<close>

definition raw_file :: "env \<Rightarrow> manager \<Rightarrow> pystr \<Rightarrow> world \<Rightarrow> pystr" where
  "raw_file e m database s =
     dump_path m database (strftime e (str ''%Y%m%d_%H%M%S'') (clock e (ticks s)))"

definition gz_file :: "env \<Rightarrow> manager \<Rightarrow> pystr \<Rightarrow> world \<Rightarrow> pystr" where
  "gz_file e m database s = raw_file e m database s @ str ''.gz''"

text \<open>How the detail line of a database begins: the mark, the stripped name, a colon.\<close>

definition detail_prefix :: "env \<Rightarrow> pystr \<Rightarrow> pystr" where
  "detail_prefix e d =
     (if healthy e (strip d) then ok_mark else err_mark) @ str '' '' @ strip d @ str '': ''"

text \<open>The line \<open>create_mysql_dump\<close> logs first, with the database name it was called with.\<close>

definition attempt_line :: "pystr \<Rightarrow> level \<times> pystr" where
  "attempt_line database = (INFO, str ''Criando backup do banco '' @ database @ str ''...'')"

text \<open>The counters and detail lines with which the loop of a run ends.\<close>

definition run_tally :: "env \<Rightarrow> manager \<Rightarrow> world \<Rightarrow> tally" where
  "run_tally e m s = fst (snd (run_loop e m s))"

section \<open>Sample inputs\<close>

text \<open>
  A run on 2024-03-01 at 12:00:00 in which every collaborator answers without an
  exception; the retention window is 30 days.
\<close>

definition t0 :: datetime where
  "t0 = 63844891200000000"

definition env0 :: env where
  "env0 = \<lparr>clock = (\<lambda>n. t0),
     strftime = (\<lambda>fmt t. if fmt = str ''%Y%m%d_%H%M%S'' then str ''20240301_120000''
                          else if fmt = str ''%Y-%m-%d'' then str ''2024-03-01''
                          else str ''01/03/2024 12:00:00''),
     str_timedelta = (\<lambda>d. str ''0:00:00''),
     int_of_str = (\<lambda>v. if v = str ''30'' then Some 30 else if v = str ''587'' then Some 587 else None),
     boto3_client = (\<lambda>r. None),
     mkdir = (\<lambda>p. None),
     open_w = (\<lambda>d. None),
     mysqldump = (\<lambda>d. Inr (0, [])),
     gzip = (\<lambda>d. None),
     upload_file = (\<lambda>d. None),
     store_time = (\<lambda>n. t0),
     put_object_tagging = (\<lambda>d. None),
     list_objects_v2 = (\<lambda>d. None),
     page_limit = 1000,
     delete_object = (\<lambda>k. None),
     os_remove = (\<lambda>d. None),
     smtp = (\<lambda>st. None)\<rparr>"

definition mgr0 :: manager where
  "mgr0 = \<lparr>mysql_host = str ''localhost'', mysql_user = str ''backup'', mysql_password = str ''secret'',
     databases = [str ''orders'', str '' users''],
     s3_bucket = str ''bkt'', aws_region = str ''us-east-1'',
     backup_dir = str ''/tmp/mysql_backups'', retention_days = 30,
     smtp_server = str ''smtp.gmail.com'', smtp_port = 587,
     email_user = str ''ops'', email_password = str ''pw'', notification_email = str ''admin''\<rparr>"

definition world0 :: world where
  "world0 = \<lparr>ticks = 0, disk = {}, bucket = [], tagging = (\<lambda>k. None), log = [], notifications = []\<rparr>"

text \<open>
  Three objects of the bucket: one of 2024-01-01 12:00:00 (60 days old at \<open>t0\<close>), one of
  2024-01-31 12:00:00 (30 days old to the microsecond), and one of another database.
\<close>

definition obj_old :: s3_object where
  "obj_old = \<lparr>obj_key = str ''mysql_backups/orders/orders_20240101_120000.sql.gz'',
              last_modified = 63839707200000000\<rparr>"




text \<open>Three databases, and a \<open>mysqldump\<close> that fails for the second one only.\<close>

definition mgr3 :: manager where
  "mgr3 = mgr0\<lparr>databases := [str ''orders'', str '' users'', str ''stock'']\<rparr>"

definition env_dumpfail :: env where
  "env_dumpfail =
     env0\<lparr>mysqldump := (\<lambda>d. if d = str ''users'' then Inr (2, str ''Access denied'') else Inr (0, []))\<rparr>"

text \<open>The options of a configuration file; the list of databases has a blank after the comma.\<close>

definition cfg0 :: config where
  "cfg0 = map_of
     [((str ''mysql'', str ''user''), str ''backup''),
      ((str ''mysql'', str ''password''), str ''secret''),
      ((str ''mysql'', str ''databases''), str ''orders, users''),
      ((str ''aws'', str ''s3_bucket''), str ''bkt''),
      ((str ''email'', str ''user''), str ''ops''),
      ((str ''email'', str ''password''), str ''pw''),
      ((str ''email'', str ''notification_email''), str ''admin'')]"

text \<open>A mail server that refuses the connection.\<close>

definition smtp_down :: "smtp_step \<Rightarrow> error option" where
  "smtp_down st = Some (SMTPError (str ''Connection refused''))"

text \<open>Collaborators that fail at one step: the transfer, the tagging, every delete.\<close>

definition env_upfail :: env where
  "env_upfail = env0\<lparr>upload_file := (\<lambda>d. Some (S3Error (str ''Connection timed out'')))\<rparr>"

definition env_tagfail :: env where
  "env_tagfail = env0\<lparr>put_object_tagging := (\<lambda>d. Some (S3Error (str ''AccessDenied'')))\<rparr>"

definition env_delfail :: env where
  "env_delfail = env0\<lparr>delete_object := (\<lambda>k. Some (S3Error (str ''AccessDenied'')))\<rparr>"

text \<open>A store that answers a list request with one object, and a bucket with two old ones.\<close>

definition env_page1 :: env where
  "env_page1 = env0\<lparr>page_limit := 1\<rparr>"

definition obj_old2 :: s3_object where
  "obj_old2 = \<lparr>obj_key = str ''mysql_backups/orders/orders_20240102_120000.sql.gz'',
               last_modified = 63839793600000000\<rparr>"

definition world2 :: world where
  "world2 = world0\<lparr>bucket := [obj_old, obj_old2]\<rparr>"

definition mgr1 :: manager where
  "mgr1 = mgr0\<lparr>databases := [str ''orders'']\<rparr>"

section \<open>What each step does to the world\<close>

lemma logging_fields [simp]:
  "bucket (logging l t s) = bucket s"
  "disk (logging l t s) = disk s"
  "ticks (logging l t s) = ticks s"
  "tagging (logging l t s) = tagging s"
  "notifications (logging l t s) = notifications s"
  "log (logging l t s) = log s @ [(l, t)]"
  by (simp_all add: logging_def)

lemma remove_key_fields [simp]:
  "bucket (remove_key k s) = filter (\<lambda>ob. obj_key ob \<noteq> k) (bucket s)"
  "disk (remove_key k s) = disk s"
  "ticks (remove_key k s) = ticks s"
  "tagging (remove_key k s) = tagging s"
  "notifications (remove_key k s) = notifications s"
  "log (remove_key k s) = log s"
  by (simp_all add: remove_key_def)

lemma now_fields [simp]:
  "fst (now e s) = clock e (ticks s)"
  "bucket (snd (now e s)) = bucket s"
  "disk (snd (now e s)) = disk s"
  "ticks (snd (now e s)) = Suc (ticks s)"
  "tagging (snd (now e s)) = tagging s"
  "notifications (snd (now e s)) = notifications s"
  "log (snd (now e s)) = log s"
  by (simp_all add: now_def)

lemma delete_loop_frame:
  "disk (snd (delete_loop e c objs n s)) = disk s \<and>
   ticks (snd (delete_loop e c objs n s)) = ticks s \<and>
   tagging (snd (delete_loop e c objs n s)) = tagging s \<and>
   notifications (snd (delete_loop e c objs n s)) = notifications s"
  by (induction objs arbitrary: n s) (auto split: option.splits)


lemma delete_loop_keeps:
  assumes "ob \<in> set (bucket s)"
    and "\<forall>p\<in>set objs. obj_key p = obj_key ob \<longrightarrow> \<not> last_modified p < c"
  shows "ob \<in> set (bucket (snd (delete_loop e c objs n s)))"
  using assms
proof (induction objs arbitrary: n s)
  case Nil
  then show ?case by simp
next
  case (Cons a objs)
  then show ?case
    by (auto split: option.splits)
qed



lemma first_page_now [simp]: "first_page e prefix (snd (now e s)) = first_page e prefix s"
  by (simp add: first_page_def)

lemma cleanup_frame:
  "disk (cleanup_old_backups e m database s) = disk s \<and>
   tagging (cleanup_old_backups e m database s) = tagging s \<and>
   notifications (cleanup_old_backups e m database s) = notifications s \<and>
   ticks (cleanup_old_backups e m database s) = Suc (ticks s)"
  using delete_loop_frame [of e _ "first_page e (cleanup_prefix database) s" 0 "snd (now e s)"]
  by (auto simp: cleanup_old_backups_def cleanup_try_def Let_def split_beta
           split: sum.splits option.splits prod.splits)




lemma create_result:
  "fst (create_mysql_dump e m database s) =
     (if dump_ok e database then Inr (gz_file e m database s)
      else Inl (case open_w e database of
                  Some err \<Rightarrow> err
                | None \<Rightarrow>
                    (case mysqldump e database of
                       Inl err \<Rightarrow> err
                     | Inr (returncode, stderr) \<Rightarrow>
                         if returncode \<noteq> 0 then DumpError (str ''Erro no mysqldump: '' @ stderr)
                         else the (gzip e database))))"
  by (auto simp: create_mysql_dump_def dump_try_def dump_ok_def gz_file_def raw_file_def
        Let_def split_beta split: option.splits sum.splits prod.splits)

lemma create_disk:
  "disk (snd (create_mysql_dump e m database s)) =
     (if open_w e database \<noteq> None then disk s
      else if dump_ok e database
      then insert (gz_file e m database s) (disk s - {raw_file e m database s})
      else insert (raw_file e m database s) (disk s))"
  by (auto simp: create_mysql_dump_def dump_try_def dump_ok_def gz_file_def raw_file_def
        Let_def split_beta split: option.splits sum.splits prod.splits)

lemma create_frame:
  "bucket (snd (create_mysql_dump e m database s)) = bucket s \<and>
   tagging (snd (create_mysql_dump e m database s)) = tagging s \<and>
   notifications (snd (create_mysql_dump e m database s)) = notifications s \<and>
   ticks (snd (create_mysql_dump e m database s)) = Suc (ticks s)"
  by (auto simp: create_mysql_dump_def dump_try_def
        Let_def split_beta split: option.splits sum.splits prod.splits)

lemma put_object_fields [simp]:
  "bucket (put_object k t s) = \<lparr>obj_key = k, last_modified = t\<rparr> # filter (\<lambda>ob. obj_key ob \<noteq> k) (bucket s)"
  "disk (put_object k t s) = disk s"
  "ticks (put_object k t s) = ticks s"
  "tagging (put_object k t s) = tagging s"
  "notifications (put_object k t s) = notifications s"
  "log (put_object k t s) = log s"
  by (simp_all add: put_object_def)

lemma upload_result:
  "fst (upload_to_s3 e m local_file database s) =
     (case upload_file e database of
        Some err \<Rightarrow> Inl err
      | None \<Rightarrow>
          (case put_object_tagging e database of
             Some err \<Rightarrow> Inl err
           | None \<Rightarrow> Inr (s3_key_of database (basename local_file))))"
  by (auto simp: upload_to_s3_def upload_try_def Let_def split_beta
        split: option.splits sum.splits prod.splits)

lemma upload_bucket:
  "bucket (snd (upload_to_s3 e m local_file database s)) =
     (if upload_file e database = None
      then \<lparr>obj_key = s3_key_of database (basename local_file), last_modified = store_time e (ticks s)\<rparr>
             # filter (\<lambda>ob. obj_key ob \<noteq> s3_key_of database (basename local_file)) (bucket s)
      else bucket s)"
  by (auto simp: upload_to_s3_def upload_try_def Let_def split_beta
        split: option.splits sum.splits prod.splits)

lemma upload_frame:
  "disk (snd (upload_to_s3 e m local_file database s)) = disk s \<and>
   notifications (snd (upload_to_s3 e m local_file database s)) = notifications s"
  by (auto simp: upload_to_s3_def upload_try_def Let_def split_beta
        split: option.splits sum.splits prod.splits)

lemma upload_ok_result:
  "upload_ok e database \<Longrightarrow>
   fst (upload_to_s3 e m local_file database s) = Inr (s3_key_of database (basename local_file))"
  by (simp add: upload_result upload_ok_def)

lemma upload_not_ok_result:
  "\<not> upload_ok e database \<Longrightarrow> \<exists>err. fst (upload_to_s3 e m local_file database s) = Inl err"
  by (auto simp: upload_result upload_ok_def split: option.splits)

lemma backup_database_result:
  "fst (backup_database e m database s) =
     (if dump_ok e database
      then (case fst (upload_to_s3 e m (gz_file e m database s) database
                        (snd (create_mysql_dump e m database s))) of
              Inl err \<Rightarrow> Inl err
            | Inr s3_key \<Rightarrow>
                (case os_remove e database of
                   Some err \<Rightarrow> Inl err
                 | None \<Rightarrow> Inr (gz_file e m database s)))
      else fst (create_mysql_dump e m database s))"
proof -
  obtain r1 s1 where c: "create_mysql_dump e m database s = (r1, s1)" by fastforce
  have r1: "r1 = fst (create_mysql_dump e m database s)" using c by simp
  show ?thesis
  proof (cases "dump_ok e database")
    case True
    then have "r1 = Inr (gz_file e m database s)" using r1 by (simp add: create_result)
    then show ?thesis using True c
      by (auto simp: backup_database_def Let_def split: sum.splits prod.splits option.splits)
  next
    case False
    then obtain err where "r1 = Inl err" using r1 by (simp add: create_result)
    then show ?thesis using False c
      by (simp add: backup_database_def)
  qed
qed

lemma backup_database_healthy:
  "healthy e database \<Longrightarrow> fst (backup_database e m database s) = Inr (gz_file e m database s)"
  by (simp add: backup_database_result healthy_def upload_ok_result)

lemma backup_database_unhealthy:
  "\<not> healthy e database \<Longrightarrow> \<exists>err. fst (backup_database e m database s) = Inl err"
  by (auto simp: backup_database_result healthy_def upload_result upload_ok_def create_result
        split: option.splits)

lemma backup_database_disk:
  "disk (snd (backup_database e m database s)) =
     (if healthy e database
      then disk s - {raw_file e m database s, gz_file e m database s}
      else disk (snd (create_mysql_dump e m database s)))"
proof -
  obtain r1 s1 where c: "create_mysql_dump e m database s = (r1, s1)" by fastforce
  have r1: "r1 = fst (create_mysql_dump e m database s)" and s1: "s1 = snd (create_mysql_dump e m database s)"
    using c by simp_all
  show ?thesis
  proof (cases "dump_ok e database")
    case False
    then obtain err where "r1 = Inl err" using r1 by (simp add: create_result)
    then show ?thesis using False c by (simp add: backup_database_def healthy_def)
  next
    case True
    then have g: "r1 = Inr (gz_file e m database s)" using r1 by (simp add: create_result)
    obtain r2 s2 where u: "upload_to_s3 e m (gz_file e m database s) database s1 = (r2, s2)" by fastforce
    have d2: "disk s2 = disk s1" using upload_frame [of e m "gz_file e m database s" database s1] u by simp
    have r2: "r2 = fst (upload_to_s3 e m (gz_file e m database s) database s1)" using u by simp
    have d1: "disk s1 = insert (gz_file e m database s) (disk s - {raw_file e m database s})"
      using True s1 by (auto simp: create_disk dump_ok_def)
    show ?thesis
    proof (cases "upload_ok e database")
      case False
      then obtain err where "r2 = Inl err" using r2 upload_not_ok_result by blast
      then show ?thesis using False c g u d2
        by (simp add: backup_database_def healthy_def)
    next
      case up: True
      then have k: "r2 = Inr (s3_key_of database (basename (gz_file e m database s)))"
        using r2 by (simp add: upload_ok_result)
      have d3: "disk (cleanup_old_backups e m database s2) = disk s2"
        by (simp add: cleanup_frame)
      show ?thesis
      proof (cases "os_remove e database")
        case None
        then have h: "healthy e database" using True up by (simp add: healthy_def)
        show ?thesis using None h c g u k d1 d2 d3
          by (auto simp: backup_database_def Let_def)
      next
        case (Some err)
        then have h: "\<not> healthy e database" by (simp add: healthy_def)
        show ?thesis using Some h c g u k d2 d3
          by (auto simp: backup_database_def Let_def)
      qed
    qed
  qed
qed

lemma backup_database_notifications:
  "notifications (snd (backup_database e m database s)) = notifications s"
proof -
  obtain r1 s1 where c: "create_mysql_dump e m database s = (r1, s1)" by fastforce
  have n1: "notifications s1 = notifications s"
    using create_frame [of e m database s] c by simp
  show ?thesis
  proof (cases r1)
    case (Inl err)
    then show ?thesis using c n1 by (simp add: backup_database_def)
  next
    case (Inr f)
    obtain r2 s2 where u: "upload_to_s3 e m f database s1 = (r2, s2)" by fastforce
    have n2: "notifications s2 = notifications s1" using upload_frame [of e m f database s1] u by simp
    have n3: "notifications (cleanup_old_backups e m database s2) = notifications s2"
      by (simp add: cleanup_frame)
    show ?thesis using Inr c u n1 n2 n3
      by (cases r2) (auto simp: backup_database_def Let_def split: option.splits)
  qed
qed


lemma startswith_append [simp]: "startswith (p @ rest) p"
  by (simp add: startswith_def)

lemma backup_loop_tally:
  assumes "backup_loop e m ds acc s = (acc', s')"
  shows "success_count acc' = success_count acc + length (filter (\<lambda>d. healthy e (strip d)) ds) \<and>
         error_count acc' = error_count acc + length (filter (\<lambda>d. \<not> healthy e (strip d)) ds) \<and>
         (\<exists>new. backup_details acc' = backup_details acc @ new \<and>
                list_all2 (\<lambda>line d. startswith line (detail_prefix e d)) new ds)"
  using assms
proof (induction ds arbitrary: acc s)
  case Nil
  then show ?case by simp
next
  case (Cons d ds)
  obtain r s1 where b: "backup_database e m (strip d) s = (r, s1)" by fastforce
  then have r: "r = fst (backup_database e m (strip d) s)" by simp
  show ?case
  proof (cases "healthy e (strip d)")
    case True
    then have ok: "r = Inr (gz_file e m (strip d) s)"
      using r by (simp add: backup_database_healthy)
    let ?line = "ok_mark @ str '' '' @ strip d @ str '': '' @ basename (gz_file e m (strip d) s)"
    let ?acc = "acc\<lparr>success_count := success_count acc + 1,
                     backup_details := backup_details acc @ [?line]\<rparr>"
    have step: "backup_loop e m ds ?acc s1 = (acc', s')"
      using Cons.prems b ok by (simp add: Let_def)
    have line: "startswith ?line (detail_prefix e d)"
      using True by (simp add: detail_prefix_def startswith_def)
    from Cons.IH [OF step] obtain new where
      sc: "success_count acc' = success_count ?acc + length (filter (\<lambda>d. healthy e (strip d)) ds)"
      and ec: "error_count acc' = error_count ?acc + length (filter (\<lambda>d. \<not> healthy e (strip d)) ds)"
      and dt: "backup_details acc' = backup_details ?acc @ new"
      and la: "list_all2 (\<lambda>line d. startswith line (detail_prefix e d)) new ds"
      by blast
    have "backup_details acc' = backup_details acc @ (?line # new)" using dt by simp
    moreover have "list_all2 (\<lambda>line d. startswith line (detail_prefix e d)) (?line # new) (d # ds)"
      using la line by simp
    ultimately show ?thesis using sc ec True by auto
  next
    case False
    then obtain err where bad: "r = Inl err"
      using r backup_database_unhealthy by blast
    let ?line = "err_mark @ str '' '' @ strip d @ str '': '' @ str_error err"
    let ?acc = "acc\<lparr>error_count := error_count acc + 1,
                     backup_details := backup_details acc @ [?line]\<rparr>"
    let ?s = "logging ERROR (str ''Falha no backup de '' @ strip d @ str '': '' @ str_error err) s1"
    have step: "backup_loop e m ds ?acc ?s = (acc', s')"
      using Cons.prems b bad by (simp add: Let_def)
    have line: "startswith ?line (detail_prefix e d)"
      using False by (simp add: detail_prefix_def startswith_def)
    from Cons.IH [OF step] obtain new where
      sc: "success_count acc' = success_count ?acc + length (filter (\<lambda>d. healthy e (strip d)) ds)"
      and ec: "error_count acc' = error_count ?acc + length (filter (\<lambda>d. \<not> healthy e (strip d)) ds)"
      and dt: "backup_details acc' = backup_details ?acc @ new"
      and la: "list_all2 (\<lambda>line d. startswith line (detail_prefix e d)) new ds"
      by blast
    have "backup_details acc' = backup_details acc @ (?line # new)" using dt by simp
    moreover have "list_all2 (\<lambda>line d. startswith line (detail_prefix e d)) (?line # new) (d # ds)"
      using la line by simp
    ultimately show ?thesis using sc ec False by auto
  qed
qed

lemma backup_loop_notifications:
  "notifications (snd (backup_loop e m ds acc s)) = notifications s"
proof (induction ds arbitrary: acc s)
  case Nil
  then show ?case by simp
next
  case (Cons d ds)
  obtain r s1 where b: "backup_database e m (strip d) s = (r, s1)" by fastforce
  have n: "notifications s1 = notifications s"
    using backup_database_notifications [of e m "strip d" s] b by simp
  show ?case using b n Cons.IH
    by (cases r) (simp_all add: Let_def)
qed

lemma delete_loop_log:
  "\<exists>l. log (snd (delete_loop e c objs n s)) = log s @ l"
proof (induction objs arbitrary: n s)
  case Nil
  then show ?case by simp
next
  case (Cons a objs)
  show ?case
  proof (cases "last_modified a < c \<and> delete_object e (obj_key a) = None")
    case True
    let ?s = "logging INFO (str ''Backup antigo removido: '' @ obj_key a) (remove_key (obj_key a) s)"
    from Cons.IH [of "n + 1" ?s] obtain l where "log (snd (delete_loop e c objs (n + 1) ?s)) = log ?s @ l"
      by blast
    then show ?thesis using True by simp
  next
    case False
    from Cons.IH [of n s] obtain l where "log (snd (delete_loop e c objs n s)) = log s @ l" by blast
    then show ?thesis using False by (auto split: option.splits)
  qed
qed

lemma cleanup_log:
  "\<exists>l. log (cleanup_old_backups e m database s) = log s @ l"
proof -
  obtain l where "log (snd (delete_loop e (clock e (ticks s) - retention_days m * us_per_day)
      (first_page e (cleanup_prefix database) s) 0 (snd (now e s)))) = log s @ l"
    using delete_loop_log [of e _ _ 0 "snd (now e s)"] by auto
  then show ?thesis
    by (auto simp: cleanup_old_backups_def cleanup_try_def Let_def split_beta
          timedelta_days_def datetime_sub_def
          split: sum.splits option.splits prod.splits if_splits)
qed

lemma create_log:
  "\<exists>l. log (snd (create_mysql_dump e m database s)) = log s @ attempt_line database # l"
  by (auto simp: create_mysql_dump_def dump_try_def attempt_line_def
        Let_def split_beta split: option.splits sum.splits prod.splits)

lemma upload_log:
  "\<exists>l. log (snd (upload_to_s3 e m local_file database s)) = log s @ l"
  by (auto simp: upload_to_s3_def upload_try_def Let_def split_beta
        split: option.splits sum.splits prod.splits)

lemma backup_database_log:
  "\<exists>l. log (snd (backup_database e m database s)) = log s @ attempt_line database # l"
proof -
  obtain r1 s1 where c: "create_mysql_dump e m database s = (r1, s1)" by fastforce
  obtain l1 where l1: "log s1 = log s @ attempt_line database # l1"
    using create_log [of e m database s] c by auto
  show ?thesis
  proof (cases r1)
    case (Inl err)
    then show ?thesis using c l1 by (simp add: backup_database_def)
  next
    case (Inr f)
    obtain r2 s2 where u: "upload_to_s3 e m f database s1 = (r2, s2)" by fastforce
    obtain l2 where l2: "log s2 = log s1 @ l2" using upload_log [of e m f database s1] u by auto
    obtain l3 where l3: "log (cleanup_old_backups e m database s2) = log s2 @ l3"
      using cleanup_log by blast
    show ?thesis using Inr c u l1 l2 l3
      by (cases r2) (auto simp: backup_database_def Let_def split: option.splits)
  qed
qed

lemma backup_loop_log:
  "\<exists>l. log (snd (backup_loop e m ds acc s)) = log s @ l \<and>
        (\<forall>d\<in>set ds. attempt_line (strip d) \<in> set l)"
proof (induction ds arbitrary: acc s)
  case Nil
  then show ?case by simp
next
  case (Cons d ds)
  obtain r s1 where b: "backup_database e m (strip d) s = (r, s1)" by fastforce
  obtain l1 where l1: "log s1 = log s @ attempt_line (strip d) # l1"
    using backup_database_log [of e m "strip d" s] b by auto
  show ?case
  proof (cases r)
    case (Inr f)
    let ?acc = "acc\<lparr>success_count := success_count acc + 1,
                     backup_details := backup_details acc
                       @ [ok_mark @ str '' '' @ strip d @ str '': '' @ basename f]\<rparr>"
    from Cons.IH [of ?acc s1] obtain l where
      l: "log (snd (backup_loop e m ds ?acc s1)) = log s1 @ l" "\<forall>d\<in>set ds. attempt_line (strip d) \<in> set l"
      by blast
    have "log (snd (backup_loop e m (d # ds) acc s)) = log s @ (attempt_line (strip d) # l1 @ l)"
      using b Inr l l1 by (simp add: Let_def)
    then show ?thesis using l(2) by auto
  next
    case (Inl err)
    let ?acc = "acc\<lparr>error_count := error_count acc + 1,
                     backup_details := backup_details acc
                       @ [err_mark @ str '' '' @ strip d @ str '': '' @ str_error err]\<rparr>"
    let ?m = "(ERROR, str ''Falha no backup de '' @ strip d @ str '': '' @ str_error err)"
    let ?s = "logging ERROR (str ''Falha no backup de '' @ strip d @ str '': '' @ str_error err) s1"
    from Cons.IH [of ?acc ?s] obtain l where
      l: "log (snd (backup_loop e m ds ?acc ?s)) = log ?s @ l" "\<forall>d\<in>set ds. attempt_line (strip d) \<in> set l"
      by blast
    have "log (snd (backup_loop e m (d # ds) acc s)) = log s @ (attempt_line (strip d) # l1 @ ?m # l)"
      using b Inl l l1 by (simp add: Let_def)
    then show ?thesis using l(2) by auto
  qed
qed

lemma run_loop_log:
  "\<forall>d\<in>set (databases m). attempt_line (strip d) \<in> set (log (snd (snd (run_loop e m s))))"
proof -
  let ?s = "logging INFO (str ''=== Iniciando processo de backup MySQL ==='') (snd (now e s))"
  obtain l where l: "log (snd (backup_loop e m (databases m) tally0 ?s)) = log ?s @ l"
    "\<forall>d\<in>set (databases m). attempt_line (strip d) \<in> set l"
    using backup_loop_log by blast
  have "snd (snd (run_loop e m s)) = snd (backup_loop e m (databases m) tally0 ?s)"
    by (simp add: run_loop_def Let_def split_beta)
  then show ?thesis using l by simp
qed

section \<open>Retention decides by strict age\<close>


text \<open>The fields of the sample environment the retention step reads.\<close>

lemma env0_sel [simp]:
  "clock env0 = (\<lambda>n. t0)"
  "page_limit env0 = 1000"
  "list_objects_v2 env0 = (\<lambda>d. None)"
  "delete_object env0 = (\<lambda>k. None)"
  by (simp_all add: env0_def)



section \<open>One failure does not stop the run\<close>

lemma run_tally_loop:
  "run_tally e m s =
     fst (backup_loop e m (databases m) tally0
            (logging INFO (str ''=== Iniciando processo de backup MySQL ==='') (snd (now e s))))"
  by (simp add: run_tally_def run_loop_def Let_def split_beta)

lemma run_tally_counts:
  "success_count (run_tally e m s) = length (filter (\<lambda>d. healthy e (strip d)) (databases m)) \<and>
   error_count (run_tally e m s) = length (filter (\<lambda>d. \<not> healthy e (strip d)) (databases m)) \<and>
   list_all2 (\<lambda>line d. startswith line (detail_prefix e d))
     (backup_details (run_tally e m s)) (databases m)"
proof -
  let ?s = "logging INFO (str ''=== Iniciando processo de backup MySQL ==='') (snd (now e s))"
  have "backup_loop e m (databases m) tally0 ?s = (run_tally e m s, snd (backup_loop e m (databases m) tally0 ?s))"
    by (simp add: run_tally_loop)
  from backup_loop_tally [OF this] show ?thesis
    by (auto simp: tally0_def)
qed

text \<open>
  C2. The loop of a run ends with one detail line for each configured database, in the
  order of the list; the line of a database opens with the success mark exactly when
  that database is healthy, whatever the outcomes of the databases before and after it;
  the success count is the number of healthy databases and the error count the number
  of the others; and the log of the loop has, for each configured database, the line with
  which its dump is started.
\<close>

theorem run_attempts_every_database:
  "length (backup_details (run_tally e m s)) = length (databases m) \<and>
   success_count (run_tally e m s) = length (filter (\<lambda>d. healthy e (strip d)) (databases m)) \<and>
   error_count (run_tally e m s) = length (filter (\<lambda>d. \<not> healthy e (strip d)) (databases m)) \<and>
   (\<forall>i<length (databases m).
      startswith (backup_details (run_tally e m s) ! i) (detail_prefix e (databases m ! i))) \<and>
   (\<forall>d\<in>set (databases m). attempt_line (strip d) \<in> set (log (snd (snd (run_loop e m s)))))"
  using run_tally_counts [of e m s] run_loop_log [of m e s]
  by (auto simp: list_all2_conv_all_nth)

lemma env_dumpfail_sel [simp]:
  "open_w env_dumpfail = (\<lambda>d. None)"
  "mysqldump env_dumpfail = (\<lambda>d. if d = str ''users'' then Inr (2, str ''Access denied'') else Inr (0, []))"
  "gzip env_dumpfail = (\<lambda>d. None)"
  "upload_file env_dumpfail = (\<lambda>d. None)"
  "put_object_tagging env_dumpfail = (\<lambda>d. None)"
  "os_remove env_dumpfail = (\<lambda>d. None)"
  by (simp_all add: env_dumpfail_def env0_def)

lemma strip_samples:
  "strip (str ''orders'') = str ''orders''"
  "strip (str '' users'') = str ''users''"
  "strip (str ''stock'') = str ''stock''"
  by (simp_all add: strip_def str_def is_space_def)

theorem run_attempts_every_database_witness:
  "length (backup_details (run_tally env_dumpfail mgr3 world0)) = 3 \<and>
   success_count (run_tally env_dumpfail mgr3 world0) = 2 \<and>
   error_count (run_tally env_dumpfail mgr3 world0) = 1 \<and>
   startswith (backup_details (run_tally env_dumpfail mgr3 world0) ! 0) (ok_mark @ str '' orders: '') \<and>
   startswith (backup_details (run_tally env_dumpfail mgr3 world0) ! 1) (err_mark @ str '' users: '') \<and>
   startswith (backup_details (run_tally env_dumpfail mgr3 world0) ! 2) (ok_mark @ str '' stock: '') \<and>
   attempt_line (str ''stock'') \<in> set (log (snd (snd (run_loop env_dumpfail mgr3 world0))))"
proof -
  have d: "databases mgr3 = [str ''orders'', str '' users'', str ''stock'']"
    by (simp add: mgr3_def)
  have h: "healthy env_dumpfail (str ''orders'')" "\<not> healthy env_dumpfail (str ''users'')"
    "healthy env_dumpfail (str ''stock'')"
    by (simp_all add: healthy_def dump_ok_def upload_ok_def str_def)
  have p: "detail_prefix env_dumpfail (str ''orders'') = ok_mark @ str '' orders: ''"
    "detail_prefix env_dumpfail (str '' users'') = err_mark @ str '' users: ''"
    "detail_prefix env_dumpfail (str ''stock'') = ok_mark @ str '' stock: ''"
    using h by (simp_all add: detail_prefix_def strip_samples) (simp_all add: str_def)
  note t = run_attempts_every_database [of env_dumpfail mgr3 world0]
  from t have c: "length (backup_details (run_tally env_dumpfail mgr3 world0)) = 3"
    "success_count (run_tally env_dumpfail mgr3 world0) = 2"
    "error_count (run_tally env_dumpfail mgr3 world0) = 1"
    using h by (simp_all add: d strip_samples)
  from t have a: "\<And>i. i < 3 \<Longrightarrow>
      startswith (backup_details (run_tally env_dumpfail mgr3 world0) ! i)
        (detail_prefix env_dumpfail (databases mgr3 ! i))"
    by (simp add: d)
  from t have l: "attempt_line (strip (str ''stock'')) \<in> set (log (snd (snd (run_loop env_dumpfail mgr3 world0))))"
    by (simp add: d)
  from a [of 0] a [of 1] a [of 2] c l show ?thesis
    by (simp add: d p strip_samples)
qed

section \<open>The result of a run\<close>

lemma run_backup_result:
  "fst (run_backup e m s) = (success_count (run_tally e m s) = length (databases m))"
  by (simp add: run_backup_def run_tally_def Let_def split_beta)

lemma run_tally_total:
  "success_count (run_tally e m s) + error_count (run_tally e m s) = length (databases m)"
  using run_tally_counts [of e m s] sum_length_filter_compl [of "\<lambda>d. healthy e (strip d)" "databases m"]
  by simp

lemma run_backup_iff_no_error:
  "fst (run_backup e m s) = (error_count (run_tally e m s) = 0)"
  using run_tally_total [of e m s] by (auto simp: run_backup_result)

lemma no_error_iff_all_healthy:
  "(error_count (run_tally e m s) = 0) = list_all (\<lambda>d. healthy e (strip d)) (databases m)"
  using run_tally_counts [of e m s]
  by (auto simp: list_all_iff filter_empty_conv)

lemma main_result:
  "fst (main e c s) =
     (case init e c of Inl err \<Rightarrow> 1 | Inr m \<Rightarrow> if fst (run_backup e m s) then 0 else 1)"
  by (simp add: main_def Let_def split_beta split: sum.splits)

lemma send_notification_appends:
  "\<exists>n. notifications (send_notification e m subject message is_error s) = notifications s @ [n] \<and>
        flagged n = is_error"
  by (auto simp: send_notification_def Let_def split: option.splits)

lemma run_loop_notifications:
  "notifications (snd (snd (run_loop e m s))) = notifications s"
  by (simp add: run_loop_def Let_def split_beta backup_loop_notifications)

lemma run_backup_notifies_once:
  "\<exists>n. notifications (snd (run_backup e m s)) = notifications s @ [n] \<and>
        flagged n = (error_count (run_tally e m s) > 0)"
proof -
  let ?acc = "run_tally e m s"
  let ?s3 = "snd (snd (run_loop e m s))"
  let ?start = "fst (run_loop e m s)"
  let ?s5 = "logging INFO (report_text e m ?start (clock e (ticks ?s3)) ?acc) (snd (now e ?s3))"
  have n5: "notifications ?s5 = notifications s" by (simp add: run_loop_notifications)
  show ?thesis
  proof (cases "error_count ?acc > 0")
    case True
    let ?r = "send_notification e m (str ''Backup com '' @ str_nat (error_count ?acc) @ str '' erro(s)'')
                (report_text e m ?start (clock e (ticks ?s3)) ?acc) True ?s5"
    have "snd (run_backup e m s) = ?r"
      using True by (simp add: run_backup_def run_tally_def Let_def split_beta)
    then show ?thesis
      using send_notification_appends [of e m _ _ True ?s5] True n5 by auto
  next
    case False
    let ?r = "send_notification e m (str ''Backup conclu'' @ [237] @ str ''do'')
                (report_text e m ?start (clock e (ticks ?s3)) ?acc) False ?s5"
    have "snd (run_backup e m s) = ?r"
      using False by (simp add: run_backup_def run_tally_def Let_def split_beta)
    then show ?thesis
      using send_notification_appends [of e m _ _ False ?s5] False n5 by auto
  qed
qed

lemma healthy_smtp [simp]: "healthy (e\<lparr>smtp := f\<rparr>) d = healthy e d"
  by (simp add: healthy_def dump_ok_def upload_ok_def)

lemma init_smtp [simp]: "init (e\<lparr>smtp := f\<rparr>) c = init e c"
  by (simp add: init_def py_int_def)

lemma run_result_smtp:
  "fst (run_backup (e\<lparr>smtp := f\<rparr>) m s) = fst (run_backup e m s)"
  by (simp add: run_backup_iff_no_error no_error_iff_all_healthy)

lemma main_result_smtp:
  "fst (main (e\<lparr>smtp := f\<rparr>) c s) = fst (main e c s)"
  by (simp add: main_result run_result_smtp split: sum.splits)


lemma run_backup_log:
  "\<exists>l. log (snd (run_backup e m s)) = log (snd (snd (run_loop e m s))) @ l"
  by (auto simp: run_backup_def send_notification_def Let_def split_beta split: option.splits)

lemma dropWhile_rev_dropWhile:
  assumes "t = [] \<or> \<not> P (hd t)"
  shows "dropWhile P (rev (dropWhile P (rev t))) = rev (dropWhile P (rev t))"
proof (cases t)
  case Nil
  then show ?thesis by simp
next
  case (Cons x xs)
  with assms have nx: "\<not> P x" by simp
  have "\<exists>ys. dropWhile P (rev xs @ [x]) = ys @ [x]"
    using nx by (cases "\<forall>y\<in>set (rev xs). P y") (auto simp: dropWhile_append)
  then obtain ys where "dropWhile P (rev t) = ys @ [x]" using Cons by auto
  then show ?thesis using nx by simp
qed

lemma strip_idem: "strip (strip s) = strip s"
proof -
  let ?t = "dropWhile is_space s"
  have t: "?t = [] \<or> \<not> is_space (hd ?t)"
    using hd_dropWhile [of is_space s] by blast
  have "dropWhile is_space (strip s) = strip s"
    unfolding strip_def using t by (rule dropWhile_rev_dropWhile [of "dropWhile is_space s" is_space])
  then show ?thesis
    by (simp add: strip_def dropWhile_idem)
qed

lemma strip_edges:
  "strip s = [] \<or> (\<not> is_space (hd (strip s)) \<and> \<not> is_space (last (strip s)))"
proof (cases "strip s = []")
  case True
  then show ?thesis by simp
next
  case False
  have "dropWhile is_space (strip s) = strip s"
    using strip_idem [of s] False
    by (metis dropWhile_idem rev_rev_ident strip_def dropWhile_rev_dropWhile hd_dropWhile)
  then have h: "\<not> is_space (hd (strip s))"
    using False hd_dropWhile [of is_space "strip s"] by simp
  have ne: "dropWhile is_space (rev (dropWhile is_space s)) \<noteq> []"
    using False by (simp add: strip_def)
  have "last (strip s) = hd (dropWhile is_space (rev (dropWhile is_space s)))"
    using ne by (simp add: strip_def last_rev)
  then have "\<not> is_space (last (strip s))"
    using hd_dropWhile [OF ne] by simp
  with h show ?thesis by simp
qed

lemma backup_loop_map_strip:
  "backup_loop e m (map strip ds) acc s = backup_loop e m ds acc s"
  by (induction ds arbitrary: acc s) (auto simp: strip_idem Let_def split: prod.splits sum.splits)

lemma cleanup_databases [simp]:
  "cleanup_old_backups e (m\<lparr>databases := x\<rparr>) database s = cleanup_old_backups e m database s"
  by (simp add: cleanup_old_backups_def cleanup_try_def)

lemma create_databases [simp]:
  "create_mysql_dump e (m\<lparr>databases := x\<rparr>) database s = create_mysql_dump e m database s"
  by (simp add: create_mysql_dump_def dump_try_def dump_path_def)

lemma upload_databases [simp]:
  "upload_to_s3 e (m\<lparr>databases := x\<rparr>) f database s = upload_to_s3 e m f database s"
  by (simp add: upload_to_s3_def upload_try_def Let_def split_beta split: option.splits)

lemma backup_database_databases [simp]:
  "backup_database e (m\<lparr>databases := x\<rparr>) database s = backup_database e m database s"
  by (simp add: backup_database_def Let_def split: prod.splits sum.splits option.splits)

lemma backup_loop_databases [simp]:
  "backup_loop e (m\<lparr>databases := x\<rparr>) ds acc s = backup_loop e m ds acc s"
  by (induction ds arbitrary: acc s) (simp_all add: Let_def split: prod.splits sum.splits)

lemma send_notification_databases [simp]:
  "send_notification e (m\<lparr>databases := x\<rparr>) subject message is_error s =
   send_notification e m subject message is_error s"
  by (simp add: send_notification_def)

lemma run_backup_stripped:
  "run_backup e (m\<lparr>databases := map strip (databases m)\<rparr>) s = run_backup e m s"
  by (simp add: run_backup_def run_loop_def report_text_def backup_loop_map_strip Let_def split_beta)

section \<open>The exit code\<close>

lemma init_cfg0: "init env0 cfg0 = Inr mgr0"
  by (simp add: init_def get_required_def get_fallback_def py_int_def raise_opt_def and_then_def
        cfg0_def env0_def mgr0_def str_def)

lemma init_cfg0': "init env_dumpfail cfg0 = Inr mgr0"
  by (simp add: init_def get_required_def get_fallback_def py_int_def raise_opt_def and_then_def
        cfg0_def env0_def env_dumpfail_def mgr0_def str_def)

lemma init_empty: "init e Map.empty = Inl (ConfigError (str ''No option user in section: mysql''))"
  by (simp add: init_def get_required_def get_fallback_def and_then_def str_def)


lemma healthy_env0 [simp]: "healthy env0 d"
  by (simp add: healthy_def dump_ok_def upload_ok_def env0_def)

lemma databases_mgr0: "databases mgr0 = [str ''orders'', str '' users'']"
  by (simp add: mgr0_def)

text \<open>
  C3. The exit code of \<open>main\<close> is 0 if and only if the constructor raises nothing and the
  error count of the run is zero; otherwise (a database failed, or the configuration or
  the set-up raised before the loop) it is 1. The error count is zero exactly when every
  configured database is healthy.
\<close>

theorem exit_code_zero_iff_no_failure:
  "(fst (main e c s) = 0 \<longleftrightarrow> (\<exists>m. init e c = Inr m \<and> error_count (run_tally e m s) = 0)) \<and>
   (fst (main e c s) = 0 \<or> fst (main e c s) = 1) \<and>
   (\<forall>m. (error_count (run_tally e m s) = 0) = (\<forall>d\<in>set (databases m). healthy e (strip d)))"
  by (auto simp: main_result run_backup_iff_no_error no_error_iff_all_healthy list_all_iff
        split: sum.splits)

theorem exit_code_zero_iff_no_failure_witness:
  "init env0 cfg0 = Inr mgr0 \<and> error_count (run_tally env0 mgr0 world0) = 0 \<and>
   fst (main env0 cfg0 world0) = 0 \<and>
   init env_dumpfail cfg0 = Inr mgr0 \<and> error_count (run_tally env_dumpfail mgr0 world0) = 1 \<and>
   fst (main env_dumpfail cfg0 world0) = 1 \<and>
   init env0 Map.empty = Inl (ConfigError (str ''No option user in section: mysql'')) \<and>
   fst (main env0 Map.empty world0) = 1"
proof -
  have e0: "error_count (run_tally env0 mgr0 world0) = 0"
    using run_tally_counts [of env0 mgr0 world0] by simp
  have h: "healthy env_dumpfail (str ''orders'')" "\<not> healthy env_dumpfail (str ''users'')"
    by (simp_all add: healthy_def dump_ok_def upload_ok_def str_def)
  have e1: "error_count (run_tally env_dumpfail mgr0 world0) = 1"
    using run_tally_counts [of env_dumpfail mgr0 world0] h
    by (simp add: databases_mgr0 strip_samples)
  from exit_code_zero_iff_no_failure [of env0 cfg0 world0] e0
  have a: "fst (main env0 cfg0 world0) = 0" by (simp add: init_cfg0)
  from exit_code_zero_iff_no_failure [of env_dumpfail cfg0 world0] e1
  have b: "fst (main env_dumpfail cfg0 world0) = 1" by (auto simp: init_cfg0')
  from exit_code_zero_iff_no_failure [of env0 Map.empty world0]
  have c: "fst (main env0 Map.empty world0) = 1" by (auto simp: init_empty)
  show ?thesis using a b c e0 e1 by (simp add: init_cfg0 init_cfg0' init_empty)
qed

section \<open>The notification\<close>

text \<open>
  C7. A run calls \<open>send_notification\<close> exactly once, with the error flag set if and only
  if the error count is greater than zero. The result of the run is decided by the error
  count alone, and neither it nor the exit code of \<open>main\<close> changes when the outcome of
  the SMTP session is replaced by any other.
\<close>

theorem notification_once_and_never_decisive:
  "(\<exists>n. notifications (snd (run_backup e m s)) = notifications s @ [n] \<and>
        flagged n = (error_count (run_tally e m s) > 0)) \<and>
   fst (run_backup e m s) = (error_count (run_tally e m s) = 0) \<and>
   fst (run_backup (e\<lparr>smtp := f\<rparr>) m s) = fst (run_backup e m s) \<and>
   fst (main (e\<lparr>smtp := f\<rparr>) c s) = fst (main e c s)"
  using run_backup_notifies_once [of e m s]
  by (simp add: run_backup_iff_no_error [symmetric] run_result_smtp main_result_smtp)

theorem notification_once_and_never_decisive_witness:
  "error_count (run_tally env_dumpfail mgr0 world0) = 1 \<and>
   (\<exists>n. notifications (snd (run_backup env_dumpfail mgr0 world0)) = [n] \<and> flagged n) \<and>
   \<not> fst (run_backup env_dumpfail mgr0 world0) \<and>
   \<not> fst (run_backup (env_dumpfail\<lparr>smtp := smtp_down\<rparr>) mgr0 world0) \<and>
   fst (run_backup (env0\<lparr>smtp := smtp_down\<rparr>) mgr0 world0) \<and>
   fst (main (env0\<lparr>smtp := smtp_down\<rparr>) cfg0 world0) = fst (main env0 cfg0 world0)"
proof -
  have h: "healthy env_dumpfail (str ''orders'')" "\<not> healthy env_dumpfail (str ''users'')"
    by (simp_all add: healthy_def dump_ok_def upload_ok_def str_def)
  have e1: "error_count (run_tally env_dumpfail mgr0 world0) = 1"
    using run_tally_counts [of env_dumpfail mgr0 world0] h
    by (simp add: databases_mgr0 strip_samples)
  have e0: "error_count (run_tally env0 mgr0 world0) = 0"
    using run_tally_counts [of env0 mgr0 world0] by simp
  have n0: "notifications world0 = []" by (simp add: world0_def)
  note a = notification_once_and_never_decisive [of env_dumpfail mgr0 world0 smtp_down cfg0]
  note b = notification_once_and_never_decisive [of env0 mgr0 world0 smtp_down cfg0]
  from a e1 n0 have 1: "\<exists>n. notifications (snd (run_backup env_dumpfail mgr0 world0)) = [n] \<and> flagged n"
    by simp
  from a e1 have 2: "\<not> fst (run_backup env_dumpfail mgr0 world0)"
    "\<not> fst (run_backup (env_dumpfail\<lparr>smtp := smtp_down\<rparr>) mgr0 world0)" by simp_all
  from b e0 have 3: "fst (run_backup (env0\<lparr>smtp := smtp_down\<rparr>) mgr0 world0)"
    "fst (main (env0\<lparr>smtp := smtp_down\<rparr>) cfg0 world0) = fst (main env0 cfg0 world0)" by simp_all
  show ?thesis using e1 1 2 3 by simp
qed

section \<open>Database names are stripped\<close>

text \<open>
  C10. A run over the configured names is the run over the stripped names: every
  iteration works with \<open>strip d\<close>, a name without leading or trailing whitespace, and it is
  with this name that the dump of each configured database is started.
\<close>

theorem names_are_stripped_before_use:
  "run_backup e (m\<lparr>databases := map strip (databases m)\<rparr>) s = run_backup e m s \<and>
   (\<forall>d\<in>set (databases m).
      (strip d = [] \<or> (\<not> is_space (hd (strip d)) \<and> \<not> is_space (last (strip d)))) \<and>
      attempt_line (strip d) \<in> set (log (snd (run_backup e m s))))"
proof -
  obtain l where "log (snd (run_backup e m s)) = log (snd (snd (run_loop e m s))) @ l"
    using run_backup_log by blast
  then show ?thesis
    using run_loop_log [of m e s] strip_edges
    by (auto simp: run_backup_stripped)
qed

lemma split_sample: "split_on 44 (str ''orders, users'') = [str ''orders'', str '' users'']"
  by (simp add: str_def)

theorem names_are_stripped_before_use_witness:
  "databases mgr0 = split_on 44 (str ''orders, users'') \<and>
   map strip (databases mgr0) = [str ''orders'', str ''users''] \<and>
   run_backup env0 (mgr0\<lparr>databases := [str ''orders'', str ''users'']\<rparr>) world0 = run_backup env0 mgr0 world0 \<and>
   \<not> is_space (hd (str ''users'')) \<and> \<not> is_space (last (str ''users'')) \<and>
   attempt_line (str ''orders'') \<in> set (log (snd (run_backup env0 mgr0 world0))) \<and>
   attempt_line (str ''users'') \<in> set (log (snd (run_backup env0 mgr0 world0)))"
proof -
  note t = names_are_stripped_before_use [of env0 mgr0 world0]
  have m: "map strip (databases mgr0) = [str ''orders'', str ''users'']"
    by (simp add: databases_mgr0 strip_samples)
  have ne: "str ''users'' \<noteq> []" by (simp add: str_def)
  from t have 1: "run_backup env0 (mgr0\<lparr>databases := [str ''orders'', str ''users'']\<rparr>) world0 =
      run_backup env0 mgr0 world0"
    by (simp add: m)
  from t have 2: "\<not> is_space (hd (str ''users'')) \<and> \<not> is_space (last (str ''users''))"
    using ne by (simp add: databases_mgr0 strip_samples)
  from t have 3: "attempt_line (str ''orders'') \<in> set (log (snd (run_backup env0 mgr0 world0)))"
    "attempt_line (str ''users'') \<in> set (log (snd (run_backup env0 mgr0 world0)))"
    by (simp_all add: databases_mgr0 strip_samples)
  show ?thesis using m 1 2 3 by (simp add: databases_mgr0 split_sample)
qed

section \<open>File names, pages and failed deletes\<close>

lemma basename_join:
  assumes "47 \<notin> set name"
  shows "basename (dir @ str ''/'' @ name) = name"
proof -
  have "takeWhile (\<lambda>c. c \<noteq> 47) (rev name @ 47 # rev dir) = rev name"
    using assms by (auto simp: takeWhile_tail)
  then show ?thesis by (simp add: basename_def str_def)
qed

lemma gz_basename:
  assumes "47 \<notin> set database"
    and "47 \<notin> set (strftime e (str ''%Y%m%d_%H%M%S'') (clock e (ticks s)))"
  shows "basename (gz_file e m database s) =
         database @ str ''_'' @ strftime e (str ''%Y%m%d_%H%M%S'') (clock e (ticks s)) @ str ''.sql.gz''"
proof -
  let ?name = "database @ str ''_'' @ strftime e (str ''%Y%m%d_%H%M%S'') (clock e (ticks s)) @ str ''.sql.gz''"
  have n: "47 \<notin> set ?name" using assms by (simp add: str_def)
  have "gz_file e m database s = backup_dir m @ str ''/'' @ ?name"
    by (simp add: gz_file_def raw_file_def dump_path_def str_def)
  then show ?thesis using basename_join [OF n] by simp
qed

lemma upload_stores:
  "upload_file e database = None \<Longrightarrow>
   \<exists>ob\<in>set (bucket (snd (upload_to_s3 e m local_file database s))).
      obj_key ob = s3_key_of database (basename local_file)"
  by (simp add: upload_bucket)

lemma first_page_all:
  assumes "length (filter (\<lambda>ob. startswith (obj_key ob) prefix) (bucket s)) \<le> page_limit e"
  shows "set (first_page e prefix s) = {ob \<in> set (bucket s). startswith (obj_key ob) prefix}"
  using assms by (auto simp: first_page_def)

lemma first_page_prefix:
  "set (first_page e prefix s) \<subseteq> {ob \<in> set (bucket s). startswith (obj_key ob) prefix}"
  unfolding first_page_def using set_take_subset by fastforce

lemma first_page_length: "length (first_page e prefix s) \<le> page_limit e"
  by (simp add: first_page_def)



section \<open>The deletes do not reach the report\<close>





lemma healthy_delete [simp]: "healthy (e\<lparr>delete_object := f\<rparr>) d = healthy e d"
  by (simp add: healthy_def dump_ok_def upload_ok_def)






section \<open>Local files after a pipeline\<close>

lemma sample_stamp:
  "strftime env0 (str ''%Y%m%d_%H%M%S'') t = str ''20240301_120000''"
  "strftime env_upfail (str ''%Y%m%d_%H%M%S'') t = str ''20240301_120000''"
  "strftime env_tagfail (str ''%Y%m%d_%H%M%S'') t = str ''20240301_120000''"
  "strftime env_delfail (str ''%Y%m%d_%H%M%S'') t = str ''20240301_120000''"
  by (simp_all add: env0_def env_upfail_def env_tagfail_def env_delfail_def)

lemma sample_paths:
  "raw_file env0 mgr0 (str ''orders'') s = str ''/tmp/mysql_backups/orders_20240301_120000.sql''"
  "gz_file env0 mgr0 (str ''orders'') s = str ''/tmp/mysql_backups/orders_20240301_120000.sql.gz''"
  "raw_file env_upfail mgr0 (str ''orders'') s = str ''/tmp/mysql_backups/orders_20240301_120000.sql''"
  "gz_file env_upfail mgr0 (str ''orders'') s = str ''/tmp/mysql_backups/orders_20240301_120000.sql.gz''"
  "gz_file env_tagfail mgr0 (str ''orders'') s = str ''/tmp/mysql_backups/orders_20240301_120000.sql.gz''"
  "gz_file env_delfail mgr0 (str ''orders'') s = str ''/tmp/mysql_backups/orders_20240301_120000.sql.gz''"
  by (simp_all add: gz_file_def raw_file_def dump_path_def sample_stamp mgr0_def) (simp_all add: str_def)

lemma sample_outcomes:
  "dump_ok env_upfail d" "\<not> upload_ok env_upfail d" "\<not> healthy env_upfail d"
  "open_w env_upfail d = None"
  "dump_ok env_tagfail d" "\<not> upload_ok env_tagfail d" "upload_file env_tagfail d = None"
  "put_object_tagging env_tagfail d = Some (S3Error (str ''AccessDenied''))"
  "healthy env_delfail d" "dump_ok env0 d" "upload_ok env0 d"
  by (simp_all add: healthy_def dump_ok_def upload_ok_def env0_def env_upfail_def env_tagfail_def env_delfail_def)

text \<open>
  C4, as the code has it. The pipeline of a database ends in success exactly when the
  database is healthy, and then neither the raw dump nor the compressed file of this run
  is on the local disk. On a failure path nothing is removed: the compressed file stays
  after a failed upload or a failed removal, the raw dump stays after a failed
  \<open>mysqldump\<close> or \<open>gzip\<close>, and the disk is as before when the file could not be opened.
\<close>

theorem local_files_after_pipeline:
  "(\<exists>f. fst (backup_database e m database s) = Inr f) = healthy e database \<and>
   disk (snd (backup_database e m database s)) =
     (if healthy e database
      then disk s - {raw_file e m database s, gz_file e m database s}
      else if dump_ok e database
      then insert (gz_file e m database s) (disk s - {raw_file e m database s})
      else if open_w e database = None
      then insert (raw_file e m database s) (disk s)
      else disk s)"
proof -
  have r: "(\<exists>f. fst (backup_database e m database s) = Inr f) = healthy e database"
  proof (cases "healthy e database")
    case True
    then show ?thesis by (simp add: backup_database_healthy)
  next
    case False
    then obtain err where "fst (backup_database e m database s) = Inl err"
      using backup_database_unhealthy by blast
    then show ?thesis using False by simp
  qed
  show ?thesis
  proof (cases "dump_ok e database")
    case True
    then have "open_w e database = None" by (simp add: dump_ok_def)
    then show ?thesis using True r by (simp add: backup_database_disk create_disk healthy_def)
  next
    case False
    then show ?thesis using r by (simp add: backup_database_disk create_disk healthy_def)
  qed
qed

theorem local_files_after_pipeline_witness:
  "healthy env0 (str ''orders'') \<and>
   (\<exists>f. fst (backup_database env0 mgr0 (str ''orders'') world0) = Inr f) \<and>
   disk (snd (backup_database env0 mgr0 (str ''orders'') world0)) = {}"
  using local_files_after_pipeline [of env0 mgr0 "str ''orders''" world0]
  by (simp add: world0_def)

text \<open>
  C4 as stated fails: when the transfer to the store raises, the compressed file of the
  database is still on the local disk after its pipeline has ended.
\<close>

theorem upload_failure_leaves_file_on_disk:
  "fst (backup_database env_upfail mgr0 (str ''orders'') world0) =
     Inl (S3Error (str ''Connection timed out'')) \<and>
   disk (snd (backup_database env_upfail mgr0 (str ''orders'') world0)) =
     {str ''/tmp/mysql_backups/orders_20240301_120000.sql.gz''}"
proof -
  have u: "upload_file env_upfail (str ''orders'') = Some (S3Error (str ''Connection timed out''))"
    by (simp add: env_upfail_def)
  have 1: "fst (backup_database env_upfail mgr0 (str ''orders'') world0) =
             Inl (S3Error (str ''Connection timed out''))"
    by (simp add: backup_database_result upload_result sample_outcomes u)
  have 2: "disk (snd (backup_database env_upfail mgr0 (str ''orders'') world0)) =
             {str ''/tmp/mysql_backups/orders_20240301_120000.sql.gz''}"
    by (simp add: backup_database_disk create_disk sample_outcomes sample_paths world0_def)
  show ?thesis using 1 2 by simp
qed

section \<open>The remote key\<close>

text \<open>
  C5, as the code has it. An upload that succeeds stores the file under the key
  \<open>mysql_backups/{database}/{basename of the local file}\<close>; the file a successful dump
  returns is the compressed file of the run, and its basename is
  \<open>{database}_{timestamp}.sql.gz\<close>, the timestamp being the clock reading of the dump
  formatted with \<open>%Y%m%d_%H%M%S\<close>, when neither the database name nor the timestamp has a
  \<open>/\<close>.
\<close>

theorem upload_key_layout:
  assumes "upload_ok e database"
  shows "(\<forall>local_file s'.
            fst (upload_to_s3 e m local_file database s') =
              Inr (str ''mysql_backups/'' @ database @ str ''/'' @ basename local_file) \<and>
            (\<exists>ob\<in>set (bucket (snd (upload_to_s3 e m local_file database s'))).
               obj_key ob = str ''mysql_backups/'' @ database @ str ''/'' @ basename local_file)) \<and>
         (dump_ok e database \<longrightarrow>
            fst (create_mysql_dump e m database s) = Inr (gz_file e m database s)) \<and>
         (47 \<notin> set database \<and> 47 \<notin> set (strftime e (str ''%Y%m%d_%H%M%S'') (clock e (ticks s))) \<longrightarrow>
            basename (gz_file e m database s) =
              database @ str ''_'' @ strftime e (str ''%Y%m%d_%H%M%S'') (clock e (ticks s))
                @ str ''.sql.gz'')"
proof -
  have u: "upload_file e database = None" using assms by (simp add: upload_ok_def)
  show ?thesis
    using upload_ok_result [OF assms, of m] upload_stores [OF u, of m]
    by (auto simp: s3_key_of_def create_result gz_basename)
qed

theorem upload_key_layout_witness:
  "upload_ok env0 (str ''orders'') \<and> dump_ok env0 (str ''orders'') \<and>
   fst (create_mysql_dump env0 mgr0 (str ''orders'') world0) =
     Inr (str ''/tmp/mysql_backups/orders_20240301_120000.sql.gz'') \<and>
   basename (str ''/tmp/mysql_backups/orders_20240301_120000.sql.gz'') =
     str ''orders_20240301_120000.sql.gz'' \<and>
   fst (upload_to_s3 env0 mgr0 (str ''/tmp/mysql_backups/orders_20240301_120000.sql.gz'')
          (str ''orders'') world0) =
     Inr (str ''mysql_backups/orders/orders_20240301_120000.sql.gz'')"
proof -
  have h: "upload_ok env0 (str ''orders'')" by (simp add: sample_outcomes)
  note t = upload_key_layout [OF h, of mgr0 world0]
  have c: "47 \<notin> set (str ''orders'') \<and>
           47 \<notin> set (strftime env0 (str ''%Y%m%d_%H%M%S'') (clock env0 (ticks world0)))"
    by (simp add: sample_stamp) (simp add: str_def)
  from t have 1: "fst (create_mysql_dump env0 mgr0 (str ''orders'') world0) =
     Inr (str ''/tmp/mysql_backups/orders_20240301_120000.sql.gz'')"
    by (simp add: sample_outcomes sample_paths)
  from t c have 2: "basename (str ''/tmp/mysql_backups/orders_20240301_120000.sql.gz'') =
     str ''orders'' @ str ''_'' @ str ''20240301_120000'' @ str ''.sql.gz''"
    by (simp add: sample_paths sample_stamp)
  from t have 3: "fst (upload_to_s3 env0 mgr0 (str ''/tmp/mysql_backups/orders_20240301_120000.sql.gz'')
          (str ''orders'') world0) =
     Inr (str ''mysql_backups/'' @ str ''orders'' @ str ''/'' @
          basename (str ''/tmp/mysql_backups/orders_20240301_120000.sql.gz''))"
    by blast
  show ?thesis using h 1 2 3 by (simp add: sample_outcomes) (simp add: str_def)
qed

text \<open>
  C5 as stated fails: the key of an uploaded file begins with \<open>mysql_backups/\<close>, not
  with \<open>backups/\<close>.
\<close>

theorem upload_key_has_mysql_backups_prefix:
  "fst (upload_to_s3 env0 mgr0 (str ''/tmp/mysql_backups/orders_20240301_120000.sql.gz'')
          (str ''orders'') world0) =
     Inr (str ''mysql_backups/orders/orders_20240301_120000.sql.gz'') \<and>
   str ''mysql_backups/orders/orders_20240301_120000.sql.gz'' \<noteq>
     str ''backups/orders/orders_20240301_120000.sql.gz''"
proof -
  have "fst (upload_to_s3 env0 mgr0 (str ''/tmp/mysql_backups/orders_20240301_120000.sql.gz'')
          (str ''orders'') world0) =
     Inr (str ''mysql_backups/orders/orders_20240301_120000.sql.gz'')"
    by code_simp
  moreover have "str ''mysql_backups/orders/orders_20240301_120000.sql.gz'' \<noteq>
     str ''backups/orders/orders_20240301_120000.sql.gz''"
    by (simp add: str_def)
  ultimately show ?thesis by simp
qed

section \<open>Tagging is part of the upload\<close>




section \<open>The listing of the retention step\<close>

lemma env_page1_sel [simp]:
  "clock env_page1 = (\<lambda>n. t0)"
  "page_limit env_page1 = 1"
  "list_objects_v2 env_page1 = (\<lambda>d. None)"
  "delete_object env_page1 = (\<lambda>k. None)"
  by (simp_all add: env_page1_def env0_def)

lemma page_world2: "first_page env_page1 (cleanup_prefix (str ''orders'')) world2 = [obj_old]"
  by code_simp

text \<open>
  C9, as the code has it. The retention step makes one list request and decides on the
  objects of that one response only: an object of the bucket whose key is not in the
  response stays in the bucket, whatever its age. The response holds objects under the
  prefix of the database, at most as many as the store puts in one response, and all of
  them when the store has no more than that under the prefix.
\<close>

theorem cleanup_examines_one_response:
  "(\<forall>ob\<in>set (bucket s).
      obj_key ob \<notin> obj_key ` set (first_page e (cleanup_prefix database) s) \<longrightarrow>
      ob \<in> set (bucket (cleanup_old_backups e m database s))) \<and>
   set (first_page e (cleanup_prefix database) s) \<subseteq>
     {ob \<in> set (bucket s). startswith (obj_key ob) (cleanup_prefix database)} \<and>
   length (first_page e (cleanup_prefix database) s) \<le> page_limit e \<and>
   (length (filter (\<lambda>ob. startswith (obj_key ob) (cleanup_prefix database)) (bucket s)) \<le> page_limit e \<longrightarrow>
      set (first_page e (cleanup_prefix database) s) =
        {ob \<in> set (bucket s). startswith (obj_key ob) (cleanup_prefix database)})"
proof (intro conjI ballI impI)
  fix ob
  assume ob: "ob \<in> set (bucket s)"
    and k: "obj_key ob \<notin> obj_key ` set (first_page e (cleanup_prefix database) s)"
  let ?page = "first_page e (cleanup_prefix database) s"
  let ?c = "clock e (ticks s) - retention_days m * us_per_day"
  have a: "ob \<in> set (bucket (snd (now e s)))" using ob by simp
  have b: "\<forall>p\<in>set ?page. obj_key p = obj_key ob \<longrightarrow> \<not> last_modified p < ?c"
    using k by (metis imageI)
  have keep: "ob \<in> set (bucket (snd (delete_loop e ?c ?page 0 (snd (now e s)))))"
    by (rule delete_loop_keeps [OF a b])
  show "ob \<in> set (bucket (cleanup_old_backups e m database s))"
    using keep ob
    by (auto simp: cleanup_old_backups_def cleanup_try_def Let_def split_beta
          timedelta_days_def datetime_sub_def
          split: sum.splits option.splits prod.splits if_splits)
next
  show "set (first_page e (cleanup_prefix database) s) \<subseteq>
     {ob \<in> set (bucket s). startswith (obj_key ob) (cleanup_prefix database)}"
    by (rule first_page_prefix)
next
  show "length (first_page e (cleanup_prefix database) s) \<le> page_limit e"
    by (rule first_page_length)
next
  assume "length (filter (\<lambda>ob. startswith (obj_key ob) (cleanup_prefix database)) (bucket s)) \<le> page_limit e"
  then show "set (first_page e (cleanup_prefix database) s) =
        {ob \<in> set (bucket s). startswith (obj_key ob) (cleanup_prefix database)}"
    by (rule first_page_all)
qed

theorem cleanup_examines_one_response_witness:
  "bucket world2 = [obj_old, obj_old2] \<and>
   first_page env_page1 (cleanup_prefix (str ''orders'')) world2 = [obj_old] \<and>
   obj_key obj_old2 \<noteq> obj_key obj_old \<and>
   obj_old2 \<in> set (bucket (cleanup_old_backups env_page1 mgr0 (str ''orders'') world2))"
proof -
  have b: "bucket world2 = [obj_old, obj_old2]" by (simp add: world2_def world0_def)
  have k: "obj_key obj_old2 \<noteq> obj_key obj_old" by (simp add: obj_old_def obj_old2_def str_def)
  from cleanup_examines_one_response [of world2 env_page1 "str ''orders''" mgr0]
  have "obj_old2 \<in> set (bucket (cleanup_old_backups env_page1 mgr0 (str ''orders'') world2))"
    using k by (simp add: b page_world2)
  then show ?thesis using b k page_world2 by simp
qed

text \<open>
  C9 as stated fails: with a store that answers with one object per response, an object
  under the prefix that is older than the window and not in the first response is still
  in the bucket after the cleanup, although the list request and every delete succeed.
\<close>

theorem old_object_beyond_first_page_survives:
  "startswith (obj_key obj_old2) (cleanup_prefix (str ''orders'')) \<and>
   clock env_page1 (ticks world2) - last_modified obj_old2 > retention_days mgr0 * us_per_day \<and>
   list_objects_v2 env_page1 (str ''orders'') = None \<and>
   delete_object env_page1 (obj_key obj_old2) = None \<and>
   bucket (cleanup_old_backups env_page1 mgr0 (str ''orders'') world2) = [obj_old2]"
proof -
  have 1: "startswith (obj_key obj_old2) (cleanup_prefix (str ''orders''))"
    by (simp add: startswith_def obj_old2_def cleanup_prefix_def str_def)
  have 2: "clock env_page1 (ticks world2) - last_modified obj_old2 > retention_days mgr0 * us_per_day"
    by (simp add: t0_def obj_old2_def mgr0_def us_per_day_def)
  have 3: "bucket (cleanup_old_backups env_page1 mgr0 (str ''orders'') world2) = [obj_old2]"
    by code_simp
  show ?thesis using 1 2 3 by simp
qed

section \<open>A failed delete\<close>

lemma env_delfail_sel [simp]:
  "clock env_delfail = (\<lambda>n. t0)"
  "page_limit env_delfail = 1000"
  "list_objects_v2 env_delfail = (\<lambda>d. None)"
  "delete_object env_delfail = (\<lambda>k. Some (S3Error (str ''AccessDenied'')))"
  by (simp_all add: env_delfail_def env0_def)



lemma mgr1_sel [simp]:
  "databases mgr1 = [str ''orders'']"
  "retention_days mgr1 = 30"
  "backup_dir mgr1 = str ''/tmp/mysql_backups''"
  by (simp_all add: mgr1_def mgr0_def)








end
